theory Spec2Isabelle
  imports Complex_Main
begin

section \<open>Python values\<close>

text \<open>
  The integration handles the decoded JSON of the Nature Remo cloud API as plain Python
  values: \<open>None\<close>, booleans, numbers, strings, lists and dicts with string keys.
  Numbers are rationals here (the code only passes them on and compares them with
  integer literals). \<open>JObj kvs\<close> is the dict whose items are \<open>kvs\<close> in insertion
  order; where a key is repeated in the list the first binding is the dict's.
\<close>

datatype json =
    JNull
  | JBool bool
  | JNum rat
  | JStr string
  | JArr "json list"
  | JObj "(string \<times> json) list"

text \<open>
  The hashable values, as dict keys. Python hashes and compares \<open>True\<close> as \<open>1\<close>
  and \<open>False\<close> as \<open>0\<close>, so a boolean key is the numeric key.
\<close>

datatype key = KNone | KNum rat | KStr string

datatype error =
    KeyError key
  | TypeError
  | AttributeError
  | StopIteration
  | ClientConnectionError
  | ClientResponseError nat
  | ContentTypeError
  | InvalidAuth error
  | Invalid

subsection \<open>Dicts as item lists\<close>

text \<open>
  \<open>d.items()\<close>, \<open>d.keys()\<close> and \<open>d.values()\<close> in insertion order: each key
  once, with its first binding in the list.
\<close>

fun dict_items :: "('k \<times> 'v) list \<Rightarrow> ('k \<times> 'v) list" where
  "dict_items [] = []"
| "dict_items (kv # kvs) = kv # filter (\<lambda>kv'. fst kv' \<noteq> fst kv) (dict_items kvs)"

definition dict_keys :: "('k \<times> 'v) list \<Rightarrow> 'k list" where
  "dict_keys kvs = map fst (dict_items kvs)"

definition dict_values :: "('k \<times> 'v) list \<Rightarrow> 'v list" where
  "dict_values kvs = map snd (dict_items kvs)"

text \<open>\<open>d[k] = v\<close>: an existing key keeps its place, a new key goes to the end.\<close>

fun dict_setitem :: "('k \<times> 'v) list \<Rightarrow> 'k \<Rightarrow> 'v \<Rightarrow> ('k \<times> 'v) list" where
  "dict_setitem [] k v = [(k, v)]"
| "dict_setitem ((k', v') # kvs) k v =
     (if k' = k then (k', v) # kvs else (k', v') # dict_setitem kvs k v)"

text \<open>\<open>d[k]\<close> on a dict: \<open>KeyError\<close> when the key is absent.\<close>

definition dict_getitem :: "(key \<times> 'v) list \<Rightarrow> key \<Rightarrow> error + 'v" where
  "dict_getitem d k = (case map_of d k of None \<Rightarrow> Inl (KeyError k) | Some v \<Rightarrow> Inr v)"

subsection \<open>Operations on values\<close>

text \<open>\<open>hash(v)\<close> for use as a dict key: lists and dicts are unhashable.\<close>

fun key_of :: "json \<Rightarrow> error + key" where
  "key_of JNull = Inr KNone"
| "key_of (JBool b) = Inr (KNum (if b then 1 else 0))"
| "key_of (JNum r) = Inr (KNum r)"
| "key_of (JStr s) = Inr (KStr s)"
| "key_of (JArr xs) = Inl TypeError"
| "key_of (JObj kvs) = Inl TypeError"

text \<open>\<open>v[k]\<close> with a string \<open>k\<close>: only a dict can be subscripted by a string.\<close>

fun py_getitem :: "json \<Rightarrow> string \<Rightarrow> error + json" where
  "py_getitem (JObj kvs) k =
     (case map_of kvs k of None \<Rightarrow> Inl (KeyError (KStr k)) | Some v \<Rightarrow> Inr v)"
| "py_getitem v k = Inl TypeError"

text \<open>
  \<open>for x in v\<close>: a list yields its elements, a dict its keys, a string its
  characters; the other values are not iterable.
\<close>

fun py_iter :: "json \<Rightarrow> error + json list" where
  "py_iter (JArr xs) = Inr xs"
| "py_iter (JObj kvs) = Inr (map JStr (dict_keys kvs))"
| "py_iter (JStr s) = Inr (map (\<lambda>c. JStr [c]) s)"
| "py_iter v = Inl TypeError"

text \<open>\<open>v == n\<close> for a number literal \<open>n\<close>, and \<open>v == s\<close> for a string literal.\<close>

fun num_of :: "json \<Rightarrow> rat option" where
  "num_of (JBool b) = Some (if b then 1 else 0)"
| "num_of (JNum r) = Some r"
| "num_of v = None"

definition py_eq_num :: "json \<Rightarrow> rat \<Rightarrow> bool" where
  "py_eq_num v n = (num_of v = Some n)"

definition py_eq_str :: "json \<Rightarrow> string \<Rightarrow> bool" where
  "py_eq_str v s = (v = JStr s)"

section \<open>The API client\<close>

text \<open>
  One GET of \<open>NatureRemoAPI.get\<close> awaits three calls of the HTTP library:
  \<open>session.get\<close>, which raises on a transport failure or returns a response;
  \<open>response.raise_for_status()\<close>, which raises on a bad status;
  \<open>response.json()\<close>, which raises or returns the decoded body. Their outcomes are
  the input of the model.
\<close>

record response =
  raise_for_status :: "error option"
  json_body :: "error + json"

type_synonym request = "error + response"

record snapshot =
  appliances :: "(key \<times> json) list"
  devices :: "(key \<times> json) list"

text \<open>The comprehension \<open>{x["id"]: x for x in xs}\<close>, from the dict built so far.\<close>

fun dict_by_id :: "(key \<times> json) list \<Rightarrow> json list \<Rightarrow> error + (key \<times> json) list" where
  "dict_by_id acc [] = Inr acc"
| "dict_by_id acc (x # xs) =
     (case py_getitem x ''id'' of
        Inl e \<Rightarrow> Inl e
      | Inr i \<Rightarrow>
          (case key_of i of
             Inl e \<Rightarrow> Inl e
           | Inr k \<Rightarrow> dict_by_id (dict_setitem acc k x) xs))"

text \<open>One \<open>try\<close> block of \<open>get\<close>; the handler logs and re-raises.\<close>

definition fetch_by_id :: "request \<Rightarrow> error + (key \<times> json) list" where
  "fetch_by_id rq =
     (case rq of
        Inl e \<Rightarrow> Inl e
      | Inr resp \<Rightarrow>
          (case raise_for_status resp of
             Some e \<Rightarrow> Inl e
           | None \<Rightarrow>
               (case json_body resp of
                  Inl e \<Rightarrow> Inl e
                | Inr body \<Rightarrow>
                    (case py_iter body of
                       Inl e \<Rightarrow> Inl e
                     | Inr xs \<Rightarrow> dict_by_id [] xs))))"

definition get :: "request \<Rightarrow> request \<Rightarrow> error + snapshot" where
  "get appliances_rq devices_rq =
     (case fetch_by_id appliances_rq of
        Inl e \<Rightarrow> Inl e
      | Inr apps \<Rightarrow>
          (case fetch_by_id devices_rq of
             Inl e \<Rightarrow> Inl e
           | Inr devs \<Rightarrow> Inr \<lparr>appliances = apps, devices = devs\<rparr>))"

section \<open>The snapshot coordinator\<close>

text \<open>
  \<open>async_update_data\<close>, the update method handed to the coordinator: the payload of
  \<open>api.get()\<close> on success; on failure the handler logs and re-raises.
\<close>

definition async_update_data :: "request \<Rightarrow> request \<Rightarrow> error + snapshot" where
  "async_update_data appliances_rq devices_rq =
     (case get appliances_rq devices_rq of
        Inr data \<Rightarrow> Inr data
      | Inl err \<Rightarrow> Inl err)"

text \<open>
  The state of the coordinator. The integration reads \<open>data\<close> (the entities and the
  setup of the sensor platform) and \<open>last_update_success\<close> (its update listener);
  \<open>last_exception\<close> is the error of the last outcome.
\<close>

record coordinator =
  data :: snapshot
  last_update_success :: bool
  last_exception :: "error option"

definition empty_snapshot :: snapshot where
  "empty_snapshot = \<lparr>appliances = [], devices = []\<rparr>"

text \<open>
  Modelled from the spec: the coordinator's constructor belongs to the host framework's
  \<open>DataUpdateCoordinator\<close>, which is not part of the sources. By section 3 of the
  specification the snapshot is created empty at startup.
\<close>

definition new_coordinator :: coordinator where
  "new_coordinator =
     \<lparr>data = empty_snapshot, last_update_success = True, last_exception = None\<rparr>"

text \<open>
  Modelled from the spec: \<open>refresh\<close> belongs to the host framework's
  \<open>DataUpdateCoordinator\<close>, which is not part of the sources. By section 4.2 of the
  specification it calls the update method; on success it swaps the snapshot and records
  the success; on failure it leaves the snapshot untouched, records the failure with its
  error, and re-raises to the caller. Timestamps and listeners are left out. The result is
  the new state and the error re-raised, if any.
\<close>

definition refresh :: "coordinator \<Rightarrow> request \<times> request \<Rightarrow> coordinator \<times> error option" where
  "refresh c rqs =
     (case async_update_data (fst rqs) (snd rqs) of
        Inr snap \<Rightarrow>
          (c\<lparr>data := snap, last_update_success := True, last_exception := None\<rparr>, None)
      | Inl err \<Rightarrow>
          (c\<lparr>last_update_success := False, last_exception := Some err\<rparr>, Some err))"

text \<open>A sequence of refresh calls, one per timer tick or manual trigger.\<close>

fun refresh_all :: "coordinator \<Rightarrow> (request \<times> request) list \<Rightarrow> coordinator" where
  "refresh_all c [] = c"
| "refresh_all c (rqs # rest) = refresh_all (fst (refresh c rqs)) rest"

text \<open>
  The payload of the most recent successful fetch of a sequence, \<open>init\<close> when none
  succeeded: the reading of the specification's sentence.
\<close>

fun last_good :: "snapshot \<Rightarrow> (request \<times> request) list \<Rightarrow> snapshot" where
  "last_good init [] = init"
| "last_good init (rqs # rest) =
     (case get (fst rqs) (snd rqs) of
        Inr snap \<Rightarrow> last_good snap rest
      | Inl err \<Rightarrow> last_good init rest)"

section \<open>Derived entities\<close>

text \<open>
  \<open>NatureRemoBase.__init__\<close> reads three fields of the appliance, and
  \<open>NatureRemoDeviceBase.__init__\<close> keeps the device and reads two of its fields; each
  subscript can raise. The name is formatted from the nickname (or the device's name); the
  model keeps the value that is formatted.
\<close>

record NatureRemoBase =
  base_nickname :: json
  base_appliance_id :: json
  base_device :: json

record NatureRemoDeviceBase =
  dev_device :: json
  dev_name :: json
  dev_device_id :: json

datatype entity =
    NatureRemoE NatureRemoBase
  | NatureRemoTemperatureSensor NatureRemoDeviceBase
  | NatureRemoHumiditySensor NatureRemoDeviceBase
  | NatureRemoIlluminanceSensor NatureRemoDeviceBase

definition NatureRemoBase_init :: "json \<Rightarrow> error + NatureRemoBase" where
  "NatureRemoBase_init appliance =
     (case py_getitem appliance ''nickname'' of
        Inl e \<Rightarrow> Inl e
      | Inr nick \<Rightarrow>
          (case py_getitem appliance ''id'' of
             Inl e \<Rightarrow> Inl e
           | Inr i \<Rightarrow>
               (case py_getitem appliance ''device'' of
                  Inl e \<Rightarrow> Inl e
                | Inr d \<Rightarrow>
                    Inr \<lparr>base_nickname = nick, base_appliance_id = i, base_device = d\<rparr>)))"

definition NatureRemoDeviceBase_init :: "json \<Rightarrow> error + NatureRemoDeviceBase" where
  "NatureRemoDeviceBase_init device =
     (case py_getitem device ''name'' of
        Inl e \<Rightarrow> Inl e
      | Inr n \<Rightarrow>
          (case py_getitem device ''id'' of
             Inl e \<Rightarrow> Inl e
           | Inr i \<Rightarrow> Inr \<lparr>dev_device = device, dev_name = n, dev_device_id = i\<rparr>))"

subsection \<open>State of the energy entity\<close>

text \<open>
  \<open>next(value["val"] for value in props if value["epc"] == 231)\<close>: the generator is
  consumed up to its first match; \<open>next\<close> raises \<open>StopIteration\<close> when there is
  none, and a subscript that fails on the way raises there.
\<close>

fun next_val_231 :: "json list \<Rightarrow> error + json" where
  "next_val_231 [] = Inl StopIteration"
| "next_val_231 (v # vs) =
     (case py_getitem v ''epc'' of
        Inl e \<Rightarrow> Inl e
      | Inr c \<Rightarrow> if py_eq_num c 231 then py_getitem v ''val'' else next_val_231 vs)"

definition NatureRemoE_state :: "NatureRemoBase \<Rightarrow> coordinator \<Rightarrow> error + json" where
  "NatureRemoE_state self c =
     (case key_of (base_appliance_id self) of
        Inl e \<Rightarrow> Inl e
      | Inr k \<Rightarrow>
          (case dict_getitem (appliances (data c)) k of
             Inl e \<Rightarrow> Inl e
           | Inr appliance \<Rightarrow>
               (case py_getitem appliance ''smart_meter'' of
                  Inl e \<Rightarrow> Inl e
                | Inr smart_meter \<Rightarrow>
                    (case py_getitem smart_meter ''echonetlite_properties'' of
                       Inl e \<Rightarrow> Inl e
                     | Inr echonetlite_properties \<Rightarrow>
                         (case py_iter echonetlite_properties of
                            Inl e \<Rightarrow> Inl e
                          | Inr vs \<Rightarrow> next_val_231 vs)))))"

subsection \<open>State of the device entities\<close>

text \<open>
  The three sensor classes differ in the key of \<open>newest_events\<close> they read:
  \<open>device["newest_events"][kind]["val"]\<close>, on the device found under
  \<open>self._device["id"]\<close> in the coordinator's snapshot.
\<close>

definition device_state :: "string \<Rightarrow> NatureRemoDeviceBase \<Rightarrow> coordinator \<Rightarrow> error + json" where
  "device_state kind self c =
     (case py_getitem (dev_device self) ''id'' of
        Inl e \<Rightarrow> Inl e
      | Inr i \<Rightarrow>
          (case key_of i of
             Inl e \<Rightarrow> Inl e
           | Inr k \<Rightarrow>
               (case dict_getitem (devices (data c)) k of
                  Inl e \<Rightarrow> Inl e
                | Inr device \<Rightarrow>
                    (case py_getitem device ''newest_events'' of
                       Inl e \<Rightarrow> Inl e
                     | Inr events \<Rightarrow>
                         (case py_getitem events kind of
                            Inl e \<Rightarrow> Inl e
                          | Inr event \<Rightarrow> py_getitem event ''val'')))))"

definition NatureRemoTemperatureSensor_state :: "NatureRemoDeviceBase \<Rightarrow> coordinator \<Rightarrow> error + json" where
  "NatureRemoTemperatureSensor_state = device_state ''te''"

definition NatureRemoHumiditySensor_state :: "NatureRemoDeviceBase \<Rightarrow> coordinator \<Rightarrow> error + json" where
  "NatureRemoHumiditySensor_state = device_state ''hu''"

definition NatureRemoIlluminanceSensor_state :: "NatureRemoDeviceBase \<Rightarrow> coordinator \<Rightarrow> error + json" where
  "NatureRemoIlluminanceSensor_state = device_state ''il''"

fun state :: "entity \<Rightarrow> coordinator \<Rightarrow> error + json" where
  "state (NatureRemoE self) c = NatureRemoE_state self c"
| "state (NatureRemoTemperatureSensor self) c = NatureRemoTemperatureSensor_state self c"
| "state (NatureRemoHumiditySensor self) c = NatureRemoHumiditySensor_state self c"
| "state (NatureRemoIlluminanceSensor self) c = NatureRemoIlluminanceSensor_state self c"

section \<open>Setup of the sensor platform\<close>

text \<open>\<open>v.keys()\<close>: only a dict has the method.\<close>

fun py_keys :: "json \<Rightarrow> error + string list" where
  "py_keys (JObj kvs) = Inr (dict_keys kvs)"
| "py_keys v = Inl AttributeError"

text \<open>
  The list comprehension over \<open>appliances.values()\<close>: the filter reads
  \<open>appliance["type"]\<close>, and the constructor runs for the appliances that pass it.
\<close>

fun energy_entities :: "json list \<Rightarrow> error + entity list" where
  "energy_entities [] = Inr []"
| "energy_entities (appliance # rest) =
     (case py_getitem appliance ''type'' of
        Inl e \<Rightarrow> Inl e
      | Inr t \<Rightarrow>
          if py_eq_str t ''EL_SMART_METER'' then
            (case NatureRemoBase_init appliance of
               Inl e \<Rightarrow> Inl e
             | Inr self \<Rightarrow>
                 (case energy_entities rest of
                    Inl e \<Rightarrow> Inl e
                  | Inr ents \<Rightarrow> Inr (NatureRemoE self # ents)))
          else energy_entities rest)"

text \<open>The inner loop over the keys of one device's \<open>newest_events\<close>, appending to \<open>entities\<close>.\<close>

fun sensor_entities :: "json \<Rightarrow> entity list \<Rightarrow> string list \<Rightarrow> error + entity list" where
  "sensor_entities device entities [] = Inr entities"
| "sensor_entities device entities (sensor # rest) =
     (if sensor = ''te'' then
        (case NatureRemoDeviceBase_init device of
           Inl e \<Rightarrow> Inl e
         | Inr self \<Rightarrow>
             sensor_entities device (entities @ [NatureRemoTemperatureSensor self]) rest)
      else if sensor = ''hu'' then
        (case NatureRemoDeviceBase_init device of
           Inl e \<Rightarrow> Inl e
         | Inr self \<Rightarrow>
             sensor_entities device (entities @ [NatureRemoHumiditySensor self]) rest)
      else if sensor = ''il'' then
        (case NatureRemoDeviceBase_init device of
           Inl e \<Rightarrow> Inl e
         | Inr self \<Rightarrow>
             sensor_entities device (entities @ [NatureRemoIlluminanceSensor self]) rest)
      else sensor_entities device entities rest)"

text \<open>
  The outer loop over \<open>devices.values()\<close>. The arguments of its log call,
  \<open>device["name"]\<close> and \<open>device["newest_events"]\<close>, are evaluated on every pass.
\<close>

fun device_entities :: "entity list \<Rightarrow> json list \<Rightarrow> error + entity list" where
  "device_entities entities [] = Inr entities"
| "device_entities entities (device # rest) =
     (case py_getitem device ''name'' of
        Inl e \<Rightarrow> Inl e
      | Inr n \<Rightarrow>
          (case py_getitem device ''newest_events'' of
             Inl e \<Rightarrow> Inl e
           | Inr events \<Rightarrow>
               (case py_keys events of
                  Inl e \<Rightarrow> Inl e
                | Inr sensors \<Rightarrow>
                    (case sensor_entities device entities sensors of
                       Inl e \<Rightarrow> Inl e
                     | Inr entities' \<Rightarrow> device_entities entities' rest))))"

text \<open>\<open>sensor.async_setup_entry\<close>: the entities handed to \<open>async_add_entities\<close>.\<close>

definition async_setup_entry :: "coordinator \<Rightarrow> error + entity list" where
  "async_setup_entry c =
     (case energy_entities (dict_values (appliances (data c))) of
        Inl e \<Rightarrow> Inl e
      | Inr entities \<Rightarrow> device_entities entities (dict_values (devices (data c))))"

text \<open>
  The entities the platform is to create, read off the description of the setup: the
  appliances of type \<open>EL_SMART_METER\<close>, and for each device the kinds among
  \<open>te\<close>, \<open>hu\<close>, \<open>il\<close> that are keys of its \<open>newest_events\<close>.
\<close>

definition is_smart_meter :: "json \<Rightarrow> bool" where
  "is_smart_meter appliance = (py_getitem appliance ''type'' = Inr (JStr ''EL_SMART_METER''))"

definition has_event :: "json \<Rightarrow> string \<Rightarrow> bool" where
  "has_event device kind =
     (case py_getitem device ''newest_events'' of
        Inl e \<Rightarrow> False
      | Inr events \<Rightarrow> (case py_getitem events kind of Inl e \<Rightarrow> False | Inr event \<Rightarrow> True))"

definition sensor_of_kind :: "string \<Rightarrow> NatureRemoDeviceBase \<Rightarrow> entity" where
  "sensor_of_kind kind self =
     (if kind = ''te'' then NatureRemoTemperatureSensor self
      else if kind = ''hu'' then NatureRemoHumiditySensor self
      else NatureRemoIlluminanceSensor self)"

section \<open>Configuration\<close>

definition CONF_ACCESS_TOKEN :: string where
  "CONF_ACCESS_TOKEN = ''access_token''"

definition CONF_UPDATE_INTERVAL :: string where
  "CONF_UPDATE_INTERVAL = ''update_interval''"

definition DEFAULT_UPDATE_INTERVAL :: rat where
  "DEFAULT_UPDATE_INTERVAL = 60"

definition UPDATE_INTERVAL_OPTIONS :: "rat list" where
  "UPDATE_INTERVAL_OPTIONS = [10, 15, 30, 45, 60, 90, 120]"

datatype ConfigEntryState =
    LOADED | NOT_LOADED | SETUP_ERROR | MIGRATION_ERROR | SETUP_RETRY
  | SETUP_IN_PROGRESS | FAILED_UNLOAD

record config_entry =
  entry_id :: string
  version :: int
  entry_data :: "(string \<times> json) list"
  entry_state :: ConfigEntryState

subsection \<open>Migration\<close>

text \<open>
  The keyword arguments of a call of the host's \<open>async_update_entry\<close> as the
  migration passes them. The host's method takes \<open>data\<close> and \<open>version\<close> among its
  keywords and has no keyword \<open>state\<close>: a call that passes \<open>state\<close> raises
  \<open>TypeError\<close> before anything is updated; a call without it replaces the fields it
  is given.
\<close>

record entry_update =
  upd_data :: "(string \<times> json) list option"
  upd_version :: "int option"
  upd_state :: "ConfigEntryState option"

definition async_update_entry :: "config_entry \<Rightarrow> entry_update \<Rightarrow> error + config_entry" where
  "async_update_entry entry u =
     (case upd_state u of
        Some s \<Rightarrow> Inl TypeError
      | None \<Rightarrow>
          Inr (entry\<lparr>
            entry_data := (case upd_data u of None \<Rightarrow> entry_data entry | Some d \<Rightarrow> d),
            version := (case upd_version u of None \<Rightarrow> version entry | Some v \<Rightarrow> v)\<rparr>))"

text \<open>
  \<open>async_migrate_entry\<close>, over the host call \<open>upd\<close>: the value returned and the
  entry afterwards. \<open>{**entry.data, key: 60}\<close> copies the items and sets the key.
\<close>

definition async_migrate_entry ::
  "(config_entry \<Rightarrow> entry_update \<Rightarrow> error + config_entry) \<Rightarrow> config_entry \<Rightarrow> bool \<times> config_entry" where
  "async_migrate_entry upd entry =
     (if version entry = 1 then
        (let new_data = dict_setitem (dict_items (entry_data entry))
                          CONF_UPDATE_INTERVAL (JNum DEFAULT_UPDATE_INTERVAL)
         in case upd entry \<lparr>upd_data = Some new_data, upd_version = Some 2,
                            upd_state = Some NOT_LOADED\<rparr> of
              Inr entry' \<Rightarrow> (True, entry')
            | Inl err \<Rightarrow>
                (case upd entry \<lparr>upd_data = None, upd_version = None,
                                 upd_state = Some SETUP_ERROR\<rparr> of
                   Inr entry' \<Rightarrow> (False, entry')
                 | Inl update_err \<Rightarrow> (False, entry)))
      else (False, entry))"

subsection \<open>The user step of the config flow\<close>

datatype flow_result =
    CreateEntry string "(string \<times> json) list"
  | ShowForm string "(string \<times> string) list"
  | Abort string

text \<open>\<open>_validate_token\<close>: any exception of the fetch is raised on as \<open>InvalidAuth\<close>.\<close>

definition validate_token :: "json \<Rightarrow> request \<Rightarrow> request \<Rightarrow> error + unit" where
  "validate_token access_token appliances_rq devices_rq =
     (case get appliances_rq devices_rq of
        Inr snap \<Rightarrow> Inr ()
      | Inl err \<Rightarrow> Inl (InvalidAuth err))"

text \<open>The body of the \<open>try\<close> of \<open>async_step_user\<close>.\<close>

definition user_step_try ::
  "(string \<times> json) list \<Rightarrow> request \<Rightarrow> request \<Rightarrow> error + flow_result" where
  "user_step_try user_input appliances_rq devices_rq =
     (case py_getitem (JObj user_input) CONF_ACCESS_TOKEN of
        Inl e \<Rightarrow> Inl e
      | Inr token \<Rightarrow>
          (case validate_token token appliances_rq devices_rq of
             Inl e \<Rightarrow> Inl e
           | Inr u \<Rightarrow>
               (case py_getitem (JObj user_input) CONF_UPDATE_INTERVAL of
                  Inl e \<Rightarrow> Inl e
                | Inr interval \<Rightarrow>
                    Inr (CreateEntry ''Nature Remo''
                          [(CONF_ACCESS_TOKEN, token), (CONF_UPDATE_INTERVAL, interval)]))))"

definition in_error_state :: "config_entry \<Rightarrow> bool" where
  "in_error_state entry =
     (entry_state entry = MIGRATION_ERROR \<or> entry_state entry = SETUP_ERROR)"

text \<open>
  \<open>async_step_user\<close>: the flow result, and the id of the entry whose removal the step
  asked of the host, if any (a failure of the removal is logged and ignored).
\<close>

definition async_step_user ::
  "config_entry list \<Rightarrow> (string \<times> json) list option \<Rightarrow> request \<Rightarrow> request
     \<Rightarrow> flow_result \<times> string option" where
  "async_step_user current_entries user_input appliances_rq devices_rq =
     (let removed = (if current_entries \<noteq> [] then find in_error_state current_entries else None)
      in if current_entries \<noteq> [] \<and> removed = None then (Abort ''already_configured'', None)
         else
           (case user_input of
              None \<Rightarrow> ShowForm ''user'' []
            | Some inp \<Rightarrow>
                (case user_step_try inp appliances_rq devices_rq of
                   Inr result \<Rightarrow> result
                 | Inl (InvalidAuth cause) \<Rightarrow> ShowForm ''user'' [(''base'', ''invalid_auth'')]
                 | Inl err \<Rightarrow> ShowForm ''user'' [(''base'', ''unknown'')]),
            map_option entry_id removed))"

subsection \<open>The schema of the form\<close>

text \<open>
  The form's \<open>data_schema\<close> with the validators of the schema library as the form uses
  them: \<open>str\<close> accepts strings, \<open>In(container)\<close> accepts the values that are
  \<open>in\<close> the container and returns them as they are, a \<open>Required\<close> key with a
  default takes the default when absent, and a key outside the schema is refused.
\<close>

definition vol_str :: "json \<Rightarrow> error + json" where
  "vol_str v = (case v of JStr s \<Rightarrow> Inr v | _ \<Rightarrow> Inl Invalid)"

definition vol_In :: "rat list \<Rightarrow> json \<Rightarrow> error + json" where
  "vol_In container v = (if list_ex (py_eq_num v) container then Inr v else Inl Invalid)"

definition user_data_schema :: "(string \<times> json) list \<Rightarrow> error + (string \<times> json) list" where
  "user_data_schema inp =
     (if list_ex (\<lambda>k. k \<noteq> CONF_ACCESS_TOKEN \<and> k \<noteq> CONF_UPDATE_INTERVAL) (dict_keys inp)
      then Inl Invalid
      else
        (case map_of inp CONF_ACCESS_TOKEN of
           None \<Rightarrow> Inl Invalid
         | Some t \<Rightarrow>
             (case vol_str t of
                Inl e \<Rightarrow> Inl e
              | Inr token \<Rightarrow>
                  (case vol_In UPDATE_INTERVAL_OPTIONS
                          (case map_of inp CONF_UPDATE_INTERVAL of
                             None \<Rightarrow> JNum DEFAULT_UPDATE_INTERVAL
                           | Some v \<Rightarrow> v) of
                     Inl e \<Rightarrow> Inl e
                   | Inr interval \<Rightarrow>
                       Inr [(CONF_ACCESS_TOKEN, token), (CONF_UPDATE_INTERVAL, interval)]))))"

text \<open>
  A submission of the form: the host validates the input against the schema of the form
  it showed, and calls the step with the validated input only.
\<close>

definition submit_user_form ::
  "config_entry list \<Rightarrow> (string \<times> json) list \<Rightarrow> request \<Rightarrow> request
     \<Rightarrow> error + flow_result \<times> string option" where
  "submit_user_form current_entries inp appliances_rq devices_rq =
     (case user_data_schema inp of
        Inl e \<Rightarrow> Inl e
      | Inr validated \<Rightarrow>
          Inr (async_step_user current_entries (Some validated) appliances_rq devices_rq))"

text \<open>
  The interval the integration's setup gives the coordinator it constructs:
  \<open>timedelta(seconds=entry.data.get("update_interval", 60))\<close>.
\<close>

definition setup_update_interval :: "(string \<times> json) list \<Rightarrow> error + rat" where
  "setup_update_interval d =
     (case num_of (case map_of d CONF_UPDATE_INTERVAL of
                     None \<Rightarrow> JNum DEFAULT_UPDATE_INTERVAL
                   | Some v \<Rightarrow> v) of
        None \<Rightarrow> Inl TypeError
      | Some seconds \<Rightarrow> Inr seconds)"

section \<open>Notions the properties are stated with\<close>

text \<open>A request that fails with a transport error or on its status.\<close>

definition request_failed :: "request \<Rightarrow> bool" where
  "request_failed rq =
     (case rq of Inl e \<Rightarrow> True | Inr resp \<Rightarrow> raise_for_status resp \<noteq> None)"

text \<open>A request answered with a good status and the decoded body \<open>body\<close>.\<close>

definition ok_response :: "json \<Rightarrow> request" where
  "ok_response body = Inr \<lparr>raise_for_status = None, json_body = Inr body\<rparr>"

text \<open>The key an element is filed under, and the last element of an array with a given key.\<close>

definition id_key :: "json \<Rightarrow> key option" where
  "id_key x =
     (case py_getitem x ''id'' of
        Inl e \<Rightarrow> None
      | Inr i \<Rightarrow> (case key_of i of Inl e \<Rightarrow> None | Inr k \<Rightarrow> Some k))"

definition last_with_id :: "key \<Rightarrow> json list \<Rightarrow> json option" where
  "last_with_id k xs = find (\<lambda>x. id_key x = Some k) (rev xs)"

text \<open>
  An entry of a smart-meter property list is a (code, value) pair: a dict with the key
  \<open>epc\<close>. \<open>has_epc v n\<close>: the entry's code is \<open>n\<close>.
\<close>

definition is_property :: "json \<Rightarrow> bool" where
  "is_property v = (case py_getitem v ''epc'' of Inl e \<Rightarrow> False | Inr c \<Rightarrow> True)"

definition has_epc :: "json \<Rightarrow> rat \<Rightarrow> bool" where
  "has_epc v n = (case py_getitem v ''epc'' of Inl e \<Rightarrow> False | Inr c \<Rightarrow> py_eq_num c n)"

text \<open>The three sensor kinds, and the number of them a device has events for.\<close>

definition is_kind :: "string \<Rightarrow> bool" where
  "is_kind k = (k = ''te'' \<or> k = ''hu'' \<or> k = ''il'')"

definition sensor_count :: "json \<Rightarrow> nat" where
  "sensor_count device =
     (if has_event device ''te'' then 1 else 0) + (if has_event device ''hu'' then 1 else 0)
     + (if has_event device ''il'' then 1 else 0)"

text \<open>
  The appliances and devices the setup runs through without an exception: an appliance
  has a \<open>type\<close>, and a smart meter the fields its entity reads; a device has the fields
  its entities read and a dict of \<open>newest_events\<close>.
\<close>

definition wf_appliance :: "json \<Rightarrow> bool" where
  "wf_appliance appliance =
     (case py_getitem appliance ''type'' of
        Inl e \<Rightarrow> False
      | Inr t \<Rightarrow> t = JStr ''EL_SMART_METER'' \<longrightarrow> \<not> isl (NatureRemoBase_init appliance))"

definition wf_device :: "json \<Rightarrow> bool" where
  "wf_device device =
     (\<not> isl (NatureRemoDeviceBase_init device) \<and>
      (case py_getitem device ''newest_events'' of
         Inl e \<Rightarrow> False
       | Inr events \<Rightarrow> \<not> isl (py_keys events)))"

section \<open>Example data\<close>

definition example_device :: json where
  "example_device =
     JObj [(''id'', JStr ''d1''), (''name'', JStr ''Remo''),
           (''newest_events'',
              JObj [(''te'', JObj [(''val'', JNum 21.5)]), (''hu'', JObj [(''val'', JNum 60)])])]"

definition example_meter :: json where
  "example_meter =
     JObj [(''id'', JStr ''a1''), (''nickname'', JStr ''Meter''),
           (''type'', JStr ''EL_SMART_METER''), (''device'', JObj [(''id'', JStr ''d1'')]),
           (''smart_meter'',
              JObj [(''echonetlite_properties'',
                JArr [JObj [(''epc'', JNum 225), (''val'', JNum 10)],
                      JObj [(''epc'', JNum 231), (''val'', JNum 450)]])])]"

definition example_meter_old :: json where
  "example_meter_old =
     JObj [(''id'', JStr ''a1''), (''nickname'', JStr ''Old''), (''type'', JStr ''EL_SMART_METER'')]"

definition example_meter_225 :: json where
  "example_meter_225 =
     JObj [(''id'', JStr ''a3''), (''nickname'', JStr ''Other''),
           (''type'', JStr ''EL_SMART_METER''), (''device'', JObj [(''id'', JStr ''d1'')]),
           (''smart_meter'',
              JObj [(''echonetlite_properties'',
                JArr [JObj [(''epc'', JNum 225), (''val'', JNum 10)]])])]"

definition example_aircon :: json where
  "example_aircon =
     JObj [(''id'', JStr ''a2''), (''nickname'', JStr ''Aircon''), (''type'', JStr ''AC''),
           (''device'', JObj [(''id'', JStr ''d1'')])]"

definition example_snapshot :: snapshot where
  "example_snapshot =
     \<lparr>appliances = [(KStr ''a1'', example_meter), (KStr ''a2'', example_aircon)],
      devices = [(KStr ''d1'', example_device)]\<rparr>"

definition example_coordinator :: coordinator where
  "example_coordinator = new_coordinator\<lparr>data := example_snapshot\<rparr>"

definition example_coordinator_225 :: coordinator where
  "example_coordinator_225 =
     new_coordinator\<lparr>data := \<lparr>appliances = [(KStr ''a3'', example_meter_225)], devices = []\<rparr>\<rparr>"

definition example_meter_entity :: NatureRemoBase where
  "example_meter_entity =
     \<lparr>base_nickname = JStr ''Meter'', base_appliance_id = JStr ''a1'',
      base_device = JObj [(''id'', JStr ''d1'')]\<rparr>"

definition example_meter_225_entity :: NatureRemoBase where
  "example_meter_225_entity =
     \<lparr>base_nickname = JStr ''Other'', base_appliance_id = JStr ''a3'',
      base_device = JObj [(''id'', JStr ''d1'')]\<rparr>"

definition example_aircon_entity :: NatureRemoBase where
  "example_aircon_entity =
     \<lparr>base_nickname = JStr ''Aircon'', base_appliance_id = JStr ''a2'',
      base_device = JObj [(''id'', JStr ''d1'')]\<rparr>"

definition example_device_entity :: NatureRemoDeviceBase where
  "example_device_entity =
     \<lparr>dev_device = example_device, dev_name = JStr ''Remo'', dev_device_id = JStr ''d1''\<rparr>"

definition example_entry :: config_entry where
  "example_entry =
     \<lparr>entry_id = ''e1'', version = 1, entry_data = [(''access_token'', JStr ''token'')],
      entry_state = NOT_LOADED\<rparr>"

definition example_fetches :: "(request \<times> request) list" where
  "example_fetches =
     [(ok_response (JArr [example_meter_old]), ok_response (JArr [])),
      (Inl ClientConnectionError, ok_response (JArr [example_device])),
      (ok_response (JArr [example_meter_old, example_aircon, example_meter]),
       ok_response (JArr [example_device])),
      (ok_response (JArr [example_meter]),
       Inr \<lparr>raise_for_status = Some (ClientResponseError 500), json_body = Inr (JArr [])\<rparr>)]"

section \<open>Dicts\<close>

lemma map_of_dict_setitem: "map_of (dict_setitem d k v) = (map_of d)(k \<mapsto> v)"
  by (induction d k v rule: dict_setitem.induct) auto

lemma keys_dict_setitem: "fst ` set (dict_setitem d k v) = insert k (fst ` set d)"
  by (induction d k v rule: dict_setitem.induct) auto

lemma distinct_dict_setitem:
  "distinct (map fst d) \<Longrightarrow> distinct (map fst (dict_setitem d k v))"
  by (induction d k v rule: dict_setitem.induct) (auto simp: keys_dict_setitem)

lemma dict_items_keys: "fst ` set (dict_items kvs) = fst ` set kvs"
  by (induction kvs) force+

lemma dict_items_distinct: "distinct (map fst (dict_items kvs))"
  by (induction kvs) (auto simp: distinct_map_filter)

lemma dict_keys_set: "set (dict_keys kvs) = fst ` set kvs"
  by (simp add: dict_keys_def dict_items_keys)

lemma dict_keys_distinct: "distinct (dict_keys kvs)"
  by (simp add: dict_keys_def dict_items_distinct)

lemma map_of_filter_neq:
  "map_of (filter (\<lambda>kv'. fst kv' \<noteq> k) kvs) k' = (if k' = k then None else map_of kvs k')"
  by (induction kvs) auto

lemma map_of_dict_items: "map_of (dict_items kvs) = map_of kvs"
proof
  fix k
  show "map_of (dict_items kvs) k = map_of kvs k"
    by (induction kvs) (auto simp: map_of_filter_neq)
qed

lemma map_of_None_keys: "(map_of kvs k = None) = (k \<notin> fst ` set kvs)"
  by (simp add: map_of_eq_None_iff)

lemma dict_getitem_Some: "map_of d k = Some v \<Longrightarrow> dict_getitem d k = Inr v"
  by (simp add: dict_getitem_def)

section \<open>The API client: all or nothing, keyed by id\<close>

lemma find_snoc:
  "find P (xs @ [x]) =
     (case find P xs of Some y \<Rightarrow> Some y | None \<Rightarrow> if P x then Some x else None)"
  by (induction xs) auto

lemma dict_by_id_lookup:
  "dict_by_id acc xs = Inr d \<Longrightarrow>
   map_of d k = (case last_with_id k xs of Some x \<Rightarrow> Some x | None \<Rightarrow> map_of acc k)"
proof (induction xs arbitrary: acc)
  case Nil
  then show ?case by (simp add: last_with_id_def)
next
  case (Cons x xs)
  from Cons.prems obtain i k' where
    i: "py_getitem x ''id'' = Inr i" and k': "key_of i = Inr k'"
    and rest: "dict_by_id (dict_setitem acc k' x) xs = Inr d"
    by (auto split: sum.splits)
  have idk: "id_key x = Some k'" using i k' by (simp add: id_key_def)
  from Cons.IH [OF rest] show ?case
    using idk by (auto simp: last_with_id_def find_snoc map_of_dict_setitem split: option.splits)
qed

lemma dict_by_id_distinct:
  "dict_by_id acc xs = Inr d \<Longrightarrow> distinct (map fst acc) \<Longrightarrow> distinct (map fst d)"
  by (induction xs arbitrary: acc) (auto split: sum.splits dest: distinct_dict_setitem)

lemma dict_by_id_total:
  "list_all (\<lambda>x. id_key x \<noteq> None) xs \<Longrightarrow> \<exists>d. dict_by_id acc xs = Inr d"
  by (induction xs arbitrary: acc) (auto simp: id_key_def split: sum.splits)

lemma fetch_by_id_ok: "fetch_by_id (ok_response (JArr xs)) = dict_by_id [] xs"
  by (simp add: fetch_by_id_def ok_response_def)

lemma fetch_by_id_failed: "request_failed rq \<Longrightarrow> \<exists>e. fetch_by_id rq = Inl e"
  by (auto simp: request_failed_def fetch_by_id_def split: sum.splits option.splits)

lemma get_example_1:
  "get (ok_response (JArr [example_meter_old])) (ok_response (JArr []))
     = Inr \<lparr>appliances = [(KStr ''a1'', example_meter_old)], devices = []\<rparr>"
  by (simp add: get_def fetch_by_id_ok example_meter_old_def)

lemma get_example_2:
  "get (ok_response (JArr [example_meter_old, example_aircon, example_meter]))
       (ok_response (JArr [example_device]))
     = Inr example_snapshot"
  by (simp add: get_def fetch_by_id_ok example_snapshot_def example_meter_old_def
      example_aircon_def example_meter_def example_device_def)

lemma get_example_transport_error:
  "get (Inl ClientConnectionError) rq = Inl ClientConnectionError"
  by (simp add: get_def fetch_by_id_def)

lemma get_example_bad_status:
  "get (ok_response (JArr [example_meter]))
       (Inr \<lparr>raise_for_status = Some (ClientResponseError 500), json_body = Inr (JArr [])\<rparr>)
     = Inl (ClientResponseError 500)"
proof -
  have "fetch_by_id (ok_response (JArr [example_meter])) = Inr [(KStr ''a1'', example_meter)]"
    by (simp add: fetch_by_id_ok example_meter_def)
  moreover have "fetch_by_id
      (Inr \<lparr>raise_for_status = Some (ClientResponseError 500), json_body = Inr (JArr [])\<rparr>)
      = Inl (ClientResponseError 500)"
    by (simp add: fetch_by_id_def)
  ultimately show ?thesis by (simp add: get_def)
qed

text \<open>
  C3. When either of the two GET requests of the fetch fails, with a transport error or
  on its status, the whole fetch raises: \<open>get\<close>, and with it the coordinator's update
  method, returns an error and no snapshot, neither the appliances half nor the devices
  half of one, so nothing of the fetch can reach a stored snapshot.
\<close>

theorem get_all_or_nothing:
  "request_failed appliances_rq \<or> request_failed devices_rq \<Longrightarrow>
   \<exists>e. get appliances_rq devices_rq = Inl e \<and>
       async_update_data appliances_rq devices_rq = Inl e"
proof -
  assume "request_failed appliances_rq \<or> request_failed devices_rq"
  then have "\<exists>e. get appliances_rq devices_rq = Inl e"
    using fetch_by_id_failed [of appliances_rq] fetch_by_id_failed [of devices_rq]
    by (auto simp: get_def split: sum.splits)
  then show ?thesis by (auto simp: async_update_data_def)
qed

theorem get_all_or_nothing_witness:
  "request_failed
     (Inr \<lparr>raise_for_status = Some (ClientResponseError 500), json_body = Inr (JArr [])\<rparr>) \<and>
   (\<exists>e. get (ok_response (JArr [example_meter]))
          (Inr \<lparr>raise_for_status = Some (ClientResponseError 500), json_body = Inr (JArr [])\<rparr>)
          = Inl e)"
proof -
  have f: "request_failed
     (Inr \<lparr>raise_for_status = Some (ClientResponseError 500), json_body = Inr (JArr [])\<rparr>)"
    by (simp add: request_failed_def)
  from get_all_or_nothing [of "ok_response (JArr [example_meter])", OF disjI2, OF f] f
  show ?thesis by blast
qed

text \<open>
  C4. When both endpoints answer with JSON arrays, a successful fetch returns the two
  mappings keyed by the elements' \<open>id\<close>: looking a key up in either mapping gives the
  last element of the corresponding array with that id, and nothing when the array has
  none; the keys of each mapping are distinct. The fetch succeeds whenever every element
  has a hashable \<open>id\<close>.
\<close>

theorem get_keyed_by_id:
  "(list_all (\<lambda>x. id_key x \<noteq> None) (xs @ ys) \<longrightarrow>
      (\<exists>s. get (ok_response (JArr xs)) (ok_response (JArr ys)) = Inr s)) \<and>
   (get (ok_response (JArr xs)) (ok_response (JArr ys)) = Inr snap \<longrightarrow>
      map_of (appliances snap) k = last_with_id k xs \<and>
      map_of (devices snap) k = last_with_id k ys \<and>
      distinct (map fst (appliances snap)) \<and> distinct (map fst (devices snap)))"
proof (intro conjI impI)
  assume "list_all (\<lambda>x. id_key x \<noteq> None) (xs @ ys)"
  then have "\<exists>d. dict_by_id [] xs = Inr d" "\<exists>d. dict_by_id [] ys = Inr d"
    using dict_by_id_total [of xs "[]"] dict_by_id_total [of ys "[]"] by auto
  then show "\<exists>s. get (ok_response (JArr xs)) (ok_response (JArr ys)) = Inr s"
    by (auto simp: get_def fetch_by_id_ok)
next
  assume g: "get (ok_response (JArr xs)) (ok_response (JArr ys)) = Inr snap"
  then have a: "dict_by_id [] xs = Inr (appliances snap)"
    and d: "dict_by_id [] ys = Inr (devices snap)"
    by (auto simp: get_def fetch_by_id_ok split: sum.splits)
  show "map_of (appliances snap) k = last_with_id k xs"
    using dict_by_id_lookup [OF a, of k] by (simp split: option.splits)
  show "map_of (devices snap) k = last_with_id k ys"
    using dict_by_id_lookup [OF d, of k] by (simp split: option.splits)
  show "distinct (map fst (appliances snap))" using dict_by_id_distinct [OF a] by simp
  show "distinct (map fst (devices snap))" using dict_by_id_distinct [OF d] by simp
qed

theorem get_keyed_by_id_witness:
  "list_all (\<lambda>x. id_key x \<noteq> None)
     ([example_meter_old, example_aircon, example_meter] @ [example_device]) \<and>
   get (ok_response (JArr [example_meter_old, example_aircon, example_meter]))
       (ok_response (JArr [example_device])) = Inr example_snapshot \<and>
   map_of (appliances example_snapshot) (KStr ''a1'') = Some example_meter \<and>
   last_with_id (KStr ''a1'') [example_meter_old, example_aircon, example_meter]
     = Some example_meter \<and>
   map_of (devices example_snapshot) (KStr ''a1'') = None"
proof -
  have ids: "list_all (\<lambda>x. id_key x \<noteq> None)
     ([example_meter_old, example_aircon, example_meter] @ [example_device])"
    by (simp add: id_key_def example_meter_old_def example_aircon_def example_meter_def
        example_device_def)
  have l: "last_with_id (KStr ''a1'') [example_meter_old, example_aircon, example_meter]
     = Some example_meter"
    by (simp add: last_with_id_def id_key_def example_meter_def)
  have l': "last_with_id (KStr ''a1'') [example_device] = None"
    by (simp add: last_with_id_def id_key_def example_device_def)
  from get_keyed_by_id [of "[example_meter_old, example_aircon, example_meter]"
      "[example_device]" example_snapshot "KStr ''a1''"] get_example_2 ids l l'
  show ?thesis by simp
qed

section \<open>The coordinator keeps the last good snapshot\<close>

lemma refresh_all_data: "data (refresh_all c rqs) = last_good (data c) rqs"
  by (induction rqs arbitrary: c)
     (auto simp: refresh_def async_update_data_def split: sum.splits)

lemma async_update_data_get: "async_update_data a d = get a d"
  by (simp add: async_update_data_def split: sum.splits)

text \<open>
  C1. After any sequence of refresh calls, and so after each call of a sequence whose
  fetches alternately succeed and fail, the coordinator's snapshot is the payload of the
  most recent successful fetch (the initial snapshot when none succeeded). The update
  method re-raises what the fetch raised; a refresh whose fetch fails hands the error to
  its caller and leaves the stored snapshot as it was, and one whose fetch succeeds
  stores the payload.
\<close>

theorem refresh_keeps_last_good_snapshot:
  "data (refresh_all c (take n rqs)) = last_good (data c) (take n rqs) \<and>
   async_update_data a d = get a d \<and>
   (get a d = Inl err \<longrightarrow>
      snd (refresh c0 (a, d)) = Some err \<and> data (fst (refresh c0 (a, d))) = data c0 \<and>
      \<not> last_update_success (fst (refresh c0 (a, d)))) \<and>
   (get a' d' = Inr snap \<longrightarrow>
      snd (refresh c1 (a', d')) = None \<and> data (fst (refresh c1 (a', d'))) = snap)"
  by (simp add: refresh_all_data async_update_data_get refresh_def)

theorem refresh_keeps_last_good_snapshot_witness:
  "data (refresh_all new_coordinator (take 2 example_fetches))
     = \<lparr>appliances = [(KStr ''a1'', example_meter_old)], devices = []\<rparr> \<and>
   data (refresh_all new_coordinator (take 4 example_fetches)) = example_snapshot \<and>
   get (Inl ClientConnectionError) (ok_response (JArr [example_device]))
     = Inl ClientConnectionError \<and>
   snd (refresh example_coordinator
          (Inl ClientConnectionError, ok_response (JArr [example_device])))
     = Some ClientConnectionError \<and>
   data (fst (refresh example_coordinator
          (Inl ClientConnectionError, ok_response (JArr [example_device]))))
     = example_snapshot \<and>
   get (ok_response (JArr [example_meter_old])) (ok_response (JArr []))
     = Inr \<lparr>appliances = [(KStr ''a1'', example_meter_old)], devices = []\<rparr> \<and>
   data (fst (refresh example_coordinator
          (ok_response (JArr [example_meter_old]), ok_response (JArr []))))
     = \<lparr>appliances = [(KStr ''a1'', example_meter_old)], devices = []\<rparr>"
proof -
  have t2: "take 2 example_fetches =
     [(ok_response (JArr [example_meter_old]), ok_response (JArr [])),
      (Inl ClientConnectionError, ok_response (JArr [example_device]))]"
    by (simp add: example_fetches_def)
  have t4: "take 4 example_fetches = example_fetches"
    by (simp add: example_fetches_def)
  have d: "data new_coordinator = empty_snapshot" "data example_coordinator = example_snapshot"
    by (simp_all add: new_coordinator_def example_coordinator_def)
  have g2: "last_good empty_snapshot (take 2 example_fetches)
     = \<lparr>appliances = [(KStr ''a1'', example_meter_old)], devices = []\<rparr>"
    unfolding t2 by (simp add: get_example_1 get_example_transport_error)
  have g4: "last_good empty_snapshot (take 4 example_fetches) = example_snapshot"
    unfolding t4 example_fetches_def
    by (simp add: get_example_1 get_example_2 get_example_transport_error get_example_bad_status)
  from refresh_keeps_last_good_snapshot [of new_coordinator 2 example_fetches
      "Inl ClientConnectionError" "ok_response (JArr [example_device])" ClientConnectionError
      example_coordinator "ok_response (JArr [example_meter_old])" "ok_response (JArr [])"
      "\<lparr>appliances = [(KStr ''a1'', example_meter_old)], devices = []\<rparr>" example_coordinator]
    refresh_keeps_last_good_snapshot [of new_coordinator 4 example_fetches
      "Inl ClientConnectionError" "ok_response (JArr [example_device])" ClientConnectionError
      example_coordinator "ok_response (JArr [example_meter_old])" "ok_response (JArr [])"
      "\<lparr>appliances = [(KStr ''a1'', example_meter_old)], devices = []\<rparr>" example_coordinator]
    d g2 g4 get_example_1 get_example_transport_error
  show ?thesis by simp
qed

section \<open>State of the derived entities\<close>

lemma next_val_231_find:
  "list_all is_property vs \<Longrightarrow> find (\<lambda>v. has_epc v 231) vs = Some entry \<Longrightarrow>
   next_val_231 vs = py_getitem entry ''val''"
  by (induction vs) (auto simp: is_property_def has_epc_def split: sum.splits if_splits)

lemma next_val_231_none:
  "list_all is_property vs \<Longrightarrow> find (\<lambda>v. has_epc v 231) vs = None \<Longrightarrow>
   next_val_231 vs = Inl StopIteration"
  by (induction vs) (auto simp: is_property_def has_epc_def split: sum.splits if_splits)

lemma device_state_event:
  assumes "py_getitem (dev_device self) ''id'' = Inr i"
    and "key_of i = Inr k"
    and "map_of (devices (data c)) k = Some device"
    and "py_getitem device ''newest_events'' = Inr events"
  shows "device_state kind self c =
           (case py_getitem events kind of
              Inl e \<Rightarrow> Inl e
            | Inr event \<Rightarrow> py_getitem event ''val'')"
  using assms by (simp add: device_state_def dict_getitem_Some)

lemma state_sensor_of_kind:
  "is_kind kind \<Longrightarrow> state (sensor_of_kind kind self) c = device_state kind self c"
  by (auto simp: is_kind_def sensor_of_kind_def NatureRemoTemperatureSensor_state_def
      NatureRemoHumiditySensor_state_def NatureRemoIlluminanceSensor_state_def)

lemma example_meter_lookup:
  "key_of (base_appliance_id example_meter_entity) = Inr (KStr ''a1'')"
  "map_of (appliances (data example_coordinator)) (KStr ''a1'') = Some example_meter"
  "py_getitem example_meter ''smart_meter'' =
     Inr (JObj [(''echonetlite_properties'',
                JArr [JObj [(''epc'', JNum 225), (''val'', JNum 10)],
                      JObj [(''epc'', JNum 231), (''val'', JNum 450)]])])"
  by (simp_all add: example_meter_entity_def example_coordinator_def example_snapshot_def
      example_meter_def)

lemma example_meter_225_lookup:
  "key_of (base_appliance_id example_meter_225_entity) = Inr (KStr ''a3'')"
  "map_of (appliances (data example_coordinator_225)) (KStr ''a3'') = Some example_meter_225"
  "py_getitem example_meter_225 ''smart_meter'' =
     Inr (JObj [(''echonetlite_properties'',
                JArr [JObj [(''epc'', JNum 225), (''val'', JNum 10)]])])"
  by (simp_all add: example_meter_225_entity_def example_coordinator_225_def
      example_meter_225_def)

lemma example_aircon_lookup:
  "key_of (base_appliance_id example_aircon_entity) = Inr (KStr ''a2'')"
  "map_of (appliances (data example_coordinator)) (KStr ''a2'') = Some example_aircon"
  by (simp_all add: example_aircon_entity_def example_coordinator_def example_snapshot_def)

lemma example_device_lookup:
  "py_getitem (dev_device example_device_entity) ''id'' = Inr (JStr ''d1'')"
  "key_of (JStr ''d1'') = Inr (KStr ''d1'')"
  "map_of (devices (data example_coordinator)) (KStr ''d1'') = Some example_device"
  "py_getitem example_device ''newest_events'' =
     Inr (JObj [(''te'', JObj [(''val'', JNum 21.5)]), (''hu'', JObj [(''val'', JNum 60)])])"
  by (simp_all add: example_device_entity_def example_coordinator_def example_snapshot_def
      example_device_def)

text \<open>
  C5. When the energy entity's appliance is in the snapshot and has a smart-meter property
  list (a list of entries with a code) that contains an entry with code 231, the entity's
  state is the \<open>val\<close> of that entry, the first with the code. For the list
  \<open>[{epc:225,val:10},{epc:231,val:450}]\<close> the state is 450.
\<close>

theorem energy_state_is_val_of_epc_231:
  assumes "key_of (base_appliance_id self) = Inr k"
    and "map_of (appliances (data c)) k = Some appliance"
    and "py_getitem appliance ''smart_meter'' = Inr smart_meter"
    and "py_getitem smart_meter ''echonetlite_properties'' = Inr (JArr props)"
    and "list_all is_property props"
    and "find (\<lambda>v. has_epc v 231) props = Some entry"
  shows "NatureRemoE_state self c = py_getitem entry ''val''"
  using assms by (simp add: NatureRemoE_state_def dict_getitem_Some next_val_231_find)

theorem energy_state_is_val_of_epc_231_witness:
  "list_all is_property
     [JObj [(''epc'', JNum 225), (''val'', JNum 10)], JObj [(''epc'', JNum 231), (''val'', JNum 450)]] \<and>
   find (\<lambda>v. has_epc v 231)
     [JObj [(''epc'', JNum 225), (''val'', JNum 10)], JObj [(''epc'', JNum 231), (''val'', JNum 450)]]
     = Some (JObj [(''epc'', JNum 231), (''val'', JNum 450)]) \<and>
   state (NatureRemoE example_meter_entity) example_coordinator = Inr (JNum 450)"
proof -
  have p: "list_all is_property
     [JObj [(''epc'', JNum 225), (''val'', JNum 10)], JObj [(''epc'', JNum 231), (''val'', JNum 450)]]"
    by (simp add: is_property_def)
  have f: "find (\<lambda>v. has_epc v 231)
     [JObj [(''epc'', JNum 225), (''val'', JNum 10)], JObj [(''epc'', JNum 231), (''val'', JNum 450)]]
     = Some (JObj [(''epc'', JNum 231), (''val'', JNum 450)])"
    by (simp add: has_epc_def py_eq_num_def)
  have e: "py_getitem
      (JObj [(''echonetlite_properties'',
                JArr [JObj [(''epc'', JNum 225), (''val'', JNum 10)],
                      JObj [(''epc'', JNum 231), (''val'', JNum 450)]])])
      ''echonetlite_properties''
     = Inr (JArr [JObj [(''epc'', JNum 225), (''val'', JNum 10)],
                  JObj [(''epc'', JNum 231), (''val'', JNum 450)]])"
    by simp
  from energy_state_is_val_of_epc_231 [OF example_meter_lookup e p f] p f
  show ?thesis by simp
qed

text \<open>
  C6. When a temperature, humidity or illuminance entity's device is in the snapshot and
  its \<open>newest_events\<close> has the entity's kind key, the entity's state is
  \<open>newest_events[kind]["val"]\<close>. For \<open>{te:{val:21.5}, hu:{val:60}}\<close> the
  temperature entity reports 21.5 and the humidity entity 60.
\<close>

theorem device_state_is_event_val:
  assumes "is_kind kind"
    and "py_getitem (dev_device self) ''id'' = Inr i"
    and "key_of i = Inr k"
    and "map_of (devices (data c)) k = Some device"
    and "py_getitem device ''newest_events'' = Inr events"
    and "py_getitem events kind = Inr event"
  shows "state (sensor_of_kind kind self) c = py_getitem event ''val''"
  using assms by (simp add: state_sensor_of_kind device_state_event)

theorem device_state_is_event_val_witness:
  "is_kind ''te'' \<and> is_kind ''hu'' \<and>
   state (NatureRemoTemperatureSensor example_device_entity) example_coordinator
     = Inr (JNum 21.5) \<and>
   state (NatureRemoHumiditySensor example_device_entity) example_coordinator
     = Inr (JNum 60)"
proof -
  have k: "is_kind ''te''" "is_kind ''hu''"
    by (simp_all add: is_kind_def)
  have te: "py_getitem
      (JObj [(''te'', JObj [(''val'', JNum 21.5)]), (''hu'', JObj [(''val'', JNum 60)])]) ''te''
      = Inr (JObj [(''val'', JNum 21.5)])"
    by simp
  have hu: "py_getitem
      (JObj [(''te'', JObj [(''val'', JNum 21.5)]), (''hu'', JObj [(''val'', JNum 60)])]) ''hu''
      = Inr (JObj [(''val'', JNum 60)])"
    by simp
  from device_state_is_event_val [OF k(1) example_device_lookup te]
    device_state_is_event_val [OF k(2) example_device_lookup hu] k
  show ?thesis by (simp add: sensor_of_kind_def)
qed

text \<open>
  C2, as stated: reading the state of an entity whose field is absent reports the value
  as unavailable and raises nothing. The illuminance entity of a device whose
  \<open>newest_events\<close> has only \<open>te\<close> and \<open>hu\<close> raises \<open>KeyError\<close>.
\<close>

theorem state_absent_field_counterexample:
  "py_getitem example_device ''newest_events'' =
     Inr (JObj [(''te'', JObj [(''val'', JNum 21.5)]), (''hu'', JObj [(''val'', JNum 60)])]) \<and>
   map_of [(''te'', JObj [(''val'', JNum 21.5)]), (''hu'', JObj [(''val'', JNum 60)])] ''il''
     = None \<and>
   state (NatureRemoIlluminanceSensor example_device_entity) example_coordinator
     = Inl (KeyError (KStr ''il''))"
  using device_state_event [OF example_device_lookup, of "''il''"]
  by (simp add: example_device_lookup NatureRemoIlluminanceSensor_state_def)

text \<open>
  C2, amended: reading the state of an entity whose field is absent raises. A device
  entity whose device has no event of its kind raises \<open>KeyError\<close> of the kind key; the
  energy entity raises \<open>KeyError\<close> of \<open>smart_meter\<close> when its appliance has no
  smart-meter block, and \<open>StopIteration\<close> when the property list has no entry with
  code 231.
\<close>

theorem state_raises_on_absent_field:
  "(py_getitem (dev_device dself) ''id'' = Inr i \<and> key_of i = Inr dk \<and>
    map_of (devices (data c)) dk = Some device \<and>
    py_getitem device ''newest_events'' = Inr (JObj events) \<and>
    map_of events kind = None
      \<longrightarrow> device_state kind dself c = Inl (KeyError (KStr kind))) \<and>
   (key_of (base_appliance_id self1) = Inr k1 \<and>
    map_of (appliances (data c1)) k1 = Some (JObj attrs) \<and>
    map_of attrs ''smart_meter'' = None
      \<longrightarrow> NatureRemoE_state self1 c1 = Inl (KeyError (KStr ''smart_meter''))) \<and>
   (key_of (base_appliance_id self2) = Inr k2 \<and>
    map_of (appliances (data c2)) k2 = Some appliance \<and>
    py_getitem appliance ''smart_meter'' = Inr smart_meter \<and>
    py_getitem smart_meter ''echonetlite_properties'' = Inr (JArr props) \<and>
    list_all is_property props \<and> find (\<lambda>v. has_epc v 231) props = None
      \<longrightarrow> NatureRemoE_state self2 c2 = Inl StopIteration)"
  by (simp add: device_state_def NatureRemoE_state_def dict_getitem_Some next_val_231_none)

theorem state_raises_on_absent_field_witness:
  "device_state ''il'' example_device_entity example_coordinator = Inl (KeyError (KStr ''il'')) \<and>
   map_of [(''id'', JStr ''a2''), (''nickname'', JStr ''Aircon''), (''type'', JStr ''AC''),
           (''device'', JObj [(''id'', JStr ''d1'')])] ''smart_meter'' = None \<and>
   NatureRemoE_state example_aircon_entity example_coordinator
     = Inl (KeyError (KStr ''smart_meter'')) \<and>
   list_all is_property [JObj [(''epc'', JNum 225), (''val'', JNum 10)]] \<and>
   find (\<lambda>v. has_epc v 231) [JObj [(''epc'', JNum 225), (''val'', JNum 10)]] = None \<and>
   NatureRemoE_state example_meter_225_entity example_coordinator_225 = Inl StopIteration"
proof -
  have il: "map_of [(''te'', JObj [(''val'', JNum 21.5)]), (''hu'', JObj [(''val'', JNum 60)])]
              ''il'' = None"
    by simp
  have a: "example_aircon =
     JObj [(''id'', JStr ''a2''), (''nickname'', JStr ''Aircon''), (''type'', JStr ''AC''),
           (''device'', JObj [(''id'', JStr ''d1'')])]"
    by (simp add: example_aircon_def)
  have sm: "map_of [(''id'', JStr ''a2''), (''nickname'', JStr ''Aircon''), (''type'', JStr ''AC''),
           (''device'', JObj [(''id'', JStr ''d1'')])] ''smart_meter'' = None"
    by simp
  have e: "py_getitem
      (JObj [(''echonetlite_properties'', JArr [JObj [(''epc'', JNum 225), (''val'', JNum 10)]])])
      ''echonetlite_properties''
     = Inr (JArr [JObj [(''epc'', JNum 225), (''val'', JNum 10)]])"
    by simp
  have p: "list_all is_property [JObj [(''epc'', JNum 225), (''val'', JNum 10)]]"
    by (simp add: is_property_def)
  have f: "find (\<lambda>v. has_epc v 231) [JObj [(''epc'', JNum 225), (''val'', JNum 10)]] = None"
    by (simp add: has_epc_def py_eq_num_def)
  from state_raises_on_absent_field [of example_device_entity "JStr ''d1''" "KStr ''d1''"
      example_coordinator example_device
      "[(''te'', JObj [(''val'', JNum 21.5)]), (''hu'', JObj [(''val'', JNum 60)])]" "''il''"
      example_aircon_entity "KStr ''a2''" example_coordinator
      "[(''id'', JStr ''a2''), (''nickname'', JStr ''Aircon''), (''type'', JStr ''AC''),
           (''device'', JObj [(''id'', JStr ''d1'')])]"
      example_meter_225_entity "KStr ''a3''" example_coordinator_225 example_meter_225
      "JObj [(''echonetlite_properties'', JArr [JObj [(''epc'', JNum 225), (''val'', JNum 10)]])]"
      "[JObj [(''epc'', JNum 225), (''val'', JNum 10)]]"]
    example_device_lookup il example_aircon_lookup a sm example_meter_225_lookup e p f
  show ?thesis by simp
qed

section \<open>Entities created at setup\<close>

lemma energy_entities_set:
  "energy_entities as = Inr ents \<Longrightarrow>
   (e \<in> set ents) =
     (\<exists>a self. a \<in> set as \<and> is_smart_meter a \<and> NatureRemoBase_init a = Inr self \<and>
        e = NatureRemoE self)"
proof (induction as arbitrary: ents)
  case Nil
  then show ?case by simp
next
  case (Cons a as)
  show ?case
  proof (cases "is_smart_meter a")
    case False
    with Cons.prems have "energy_entities as = Inr ents"
      by (auto simp: is_smart_meter_def py_eq_str_def split: sum.splits if_splits)
    from Cons.IH [OF this] False show ?thesis by auto
  next
    case True
    with Cons.prems obtain self rest where
      init: "NatureRemoBase_init a = Inr self" and rest: "energy_entities as = Inr rest"
      and ents: "ents = NatureRemoE self # rest"
      by (auto simp: is_smart_meter_def py_eq_str_def split: sum.splits if_splits)
    from Cons.IH [OF rest] init True show ?thesis
      unfolding ents by auto
  qed
qed

lemma energy_entities_length:
  "energy_entities as = Inr ents \<Longrightarrow> length ents = length (filter is_smart_meter as)"
  by (induction as arbitrary: ents)
     (auto simp: is_smart_meter_def py_eq_str_def split: sum.splits if_splits)

lemma energy_entities_total:
  "list_all wf_appliance as \<Longrightarrow> \<exists>ents. energy_entities as = Inr ents"
  by (induction as) (auto simp: wf_appliance_def py_eq_str_def split: sum.splits)

lemma sensor_entities_append:
  "sensor_entities device acc ks = Inr ents \<Longrightarrow>
   \<exists>new. ents = acc @ new \<and>
     (\<forall>e. (e \<in> set new) =
        (\<exists>k self. k \<in> set ks \<and> is_kind k \<and> NatureRemoDeviceBase_init device = Inr self \<and>
           e = sensor_of_kind k self)) \<and>
     length new = length (filter is_kind ks)"
proof (induction ks arbitrary: acc ents)
  case Nil
  then show ?case by simp
next
  case (Cons k ks)
  show ?case
  proof (cases "is_kind k")
    case False
    with Cons.prems have "sensor_entities device acc ks = Inr ents"
      by (simp add: is_kind_def)
    from Cons.IH [OF this] obtain new where
      new: "ents = acc @ new"
        "\<forall>e. (e \<in> set new) =
          (\<exists>k self. k \<in> set ks \<and> is_kind k \<and> NatureRemoDeviceBase_init device = Inr self \<and>
             e = sensor_of_kind k self)"
        "length new = length (filter is_kind ks)"
      by blast
    have "\<forall>e. (e \<in> set new) =
          (\<exists>k' self. k' \<in> set (k # ks) \<and> is_kind k' \<and>
             NatureRemoDeviceBase_init device = Inr self \<and> e = sensor_of_kind k' self)"
      using new(2) False by auto
    moreover have "length new = length (filter is_kind (k # ks))"
      using new(3) False by simp
    ultimately show ?thesis using new(1) by blast
  next
    case True
    with Cons.prems obtain self where
      init: "NatureRemoDeviceBase_init device = Inr self"
      and rest: "sensor_entities device (acc @ [sensor_of_kind k self]) ks = Inr ents"
      by (auto simp: is_kind_def sensor_of_kind_def split: sum.splits if_splits)
    from Cons.IH [OF rest] obtain new where
      new: "ents = (acc @ [sensor_of_kind k self]) @ new"
        "\<forall>e. (e \<in> set new) =
          (\<exists>k self. k \<in> set ks \<and> is_kind k \<and> NatureRemoDeviceBase_init device = Inr self \<and>
             e = sensor_of_kind k self)"
        "length new = length (filter is_kind ks)"
      by blast
    have "ents = acc @ (sensor_of_kind k self # new)" using new(1) by simp
    moreover have "\<forall>e. (e \<in> set (sensor_of_kind k self # new)) =
          (\<exists>k' self. k' \<in> set (k # ks) \<and> is_kind k' \<and>
             NatureRemoDeviceBase_init device = Inr self \<and> e = sensor_of_kind k' self)"
      using new(2) init True by auto
    moreover have "length (sensor_of_kind k self # new) = length (filter is_kind (k # ks))"
      using new(3) True by simp
    ultimately show ?thesis by blast
  qed
qed

lemma sensor_entities_total:
  "\<not> isl (NatureRemoDeviceBase_init device) \<Longrightarrow> \<exists>ents. sensor_entities device acc ks = Inr ents"
  by (induction ks arbitrary: acc) (auto split: sum.splits)

lemma count_kinds:
  "distinct ks \<Longrightarrow>
   length (filter is_kind ks) =
     (if ''te'' \<in> set ks then 1 else 0) + (if ''hu'' \<in> set ks then 1 else 0)
     + (if ''il'' \<in> set ks then 1 else 0)"
  by (induction ks) (auto simp: is_kind_def)

lemma has_event_keys:
  "py_getitem device ''newest_events'' = Inr events \<Longrightarrow> py_keys events = Inr ks \<Longrightarrow>
   has_event device kind = (kind \<in> set ks)"
proof (cases events)
  case (JObj kvs)
  assume "py_getitem device ''newest_events'' = Inr events" "py_keys events = Inr ks"
  with JObj have ks: "ks = dict_keys kvs"
    and h: "has_event device kind = (map_of kvs kind \<noteq> None)"
    by (auto simp: has_event_def split: option.splits)
  show ?thesis unfolding h ks dict_keys_set map_of_None_keys by simp
qed simp_all

lemma py_keys_distinct: "py_keys events = Inr ks \<Longrightarrow> distinct ks"
  by (cases events) (auto simp: dict_keys_distinct)

lemma sensor_count_keys:
  assumes "py_getitem device ''newest_events'' = Inr events" and "py_keys events = Inr ks"
  shows "length (filter is_kind ks) = sensor_count device"
  unfolding sensor_count_def has_event_keys [OF assms]
  using count_kinds [OF py_keys_distinct [OF assms(2)]] by simp

lemma device_entities_append:
  "device_entities acc ds = Inr ents \<Longrightarrow>
   \<exists>new. ents = acc @ new \<and>
     (\<forall>e. (e \<in> set new) =
        (\<exists>d k self. d \<in> set ds \<and> is_kind k \<and> has_event d k \<and>
           NatureRemoDeviceBase_init d = Inr self \<and> e = sensor_of_kind k self)) \<and>
     length new = sum_list (map sensor_count ds)"
proof (induction ds arbitrary: acc ents)
  case Nil
  then show ?case by simp
next
  case (Cons d ds)
  from Cons.prems obtain events ks mid where
    ev: "py_getitem d ''newest_events'' = Inr events" and ks: "py_keys events = Inr ks"
    and mid: "sensor_entities d acc ks = Inr mid"
    and rest: "device_entities mid ds = Inr ents"
    by (auto split: sum.splits)
  from sensor_entities_append [OF mid] obtain new1 where
    new1: "mid = acc @ new1"
      "\<forall>e. (e \<in> set new1) =
        (\<exists>k self. k \<in> set ks \<and> is_kind k \<and> NatureRemoDeviceBase_init d = Inr self \<and>
           e = sensor_of_kind k self)"
      "length new1 = length (filter is_kind ks)"
    by blast
  from Cons.IH [OF rest] obtain new2 where
    new2: "ents = mid @ new2"
      "\<forall>e. (e \<in> set new2) =
        (\<exists>d k self. d \<in> set ds \<and> is_kind k \<and> has_event d k \<and>
           NatureRemoDeviceBase_init d = Inr self \<and> e = sensor_of_kind k self)"
      "length new2 = sum_list (map sensor_count ds)"
    by blast
  have mem: "\<And>k. (k \<in> set ks) = has_event d k"
    using has_event_keys [OF ev ks] by simp
  have "ents = acc @ (new1 @ new2)" using new1(1) new2(1) by simp
  moreover have "\<forall>e. (e \<in> set (new1 @ new2)) =
        (\<exists>d' k self. d' \<in> set (d # ds) \<and> is_kind k \<and> has_event d' k \<and>
           NatureRemoDeviceBase_init d' = Inr self \<and> e = sensor_of_kind k self)"
  proof
    fix e
    have "(e \<in> set new1) =
        (\<exists>k self. is_kind k \<and> has_event d k \<and> NatureRemoDeviceBase_init d = Inr self \<and>
           e = sensor_of_kind k self)"
      using new1(2) mem by blast
    moreover have "(\<exists>d' k self. d' \<in> set (d # ds) \<and> is_kind k \<and> has_event d' k \<and>
           NatureRemoDeviceBase_init d' = Inr self \<and> e = sensor_of_kind k self) =
        ((\<exists>k self. is_kind k \<and> has_event d k \<and> NatureRemoDeviceBase_init d = Inr self \<and>
           e = sensor_of_kind k self) \<or>
         (\<exists>d' k self. d' \<in> set ds \<and> is_kind k \<and> has_event d' k \<and>
           NatureRemoDeviceBase_init d' = Inr self \<and> e = sensor_of_kind k self))"
      by (simp only: set_simps insert_iff) blast
    ultimately show "(e \<in> set (new1 @ new2)) =
        (\<exists>d' k self. d' \<in> set (d # ds) \<and> is_kind k \<and> has_event d' k \<and>
           NatureRemoDeviceBase_init d' = Inr self \<and> e = sensor_of_kind k self)"
      using new2(2) by simp
  qed
  moreover have "length (new1 @ new2) = sum_list (map sensor_count (d # ds))"
    using new1(3) new2(3) sensor_count_keys [OF ev ks] by simp
  ultimately show ?case by blast
qed

lemma device_entities_total:
  "list_all wf_device ds \<Longrightarrow> \<exists>ents. device_entities acc ds = Inr ents"
proof (induction ds arbitrary: acc)
  case Nil
  then show ?case by simp
next
  case (Cons d ds)
  from Cons.prems have wf: "wf_device d" and rest: "list_all wf_device ds"
    by simp_all
  from wf have init: "\<not> isl (NatureRemoDeviceBase_init d)"
    by (simp add: wf_device_def)
  from wf obtain events where
    ev: "py_getitem d ''newest_events'' = Inr events" and nk: "\<not> isl (py_keys events)"
    by (auto simp: wf_device_def split: sum.splits)
  from nk obtain ks where ks: "py_keys events = Inr ks"
    by (cases "py_keys events") auto
  from init obtain n where n: "py_getitem d ''name'' = Inr n"
    by (auto simp: NatureRemoDeviceBase_init_def split: sum.splits)
  from sensor_entities_total [OF init] obtain mid where
    mid: "sensor_entities d acc ks = Inr mid" by blast
  from Cons.IH [OF rest] obtain ents where "device_entities mid ds = Inr ents" by blast
  then show ?case using ev ks n mid by simp
qed

lemma example_values:
  "dict_values (appliances (data example_coordinator)) = [example_meter, example_aircon]"
  "dict_values (devices (data example_coordinator)) = [example_device]"
  by (simp_all add: dict_values_def example_coordinator_def example_snapshot_def)

lemma example_inits:
  "NatureRemoBase_init example_meter = Inr example_meter_entity"
  "NatureRemoDeviceBase_init example_device = Inr example_device_entity"
  by (simp_all add: NatureRemoBase_init_def NatureRemoDeviceBase_init_def example_meter_def
      example_device_def example_meter_entity_def example_device_entity_def)

lemma example_types:
  "py_getitem example_meter ''type'' = Inr (JStr ''EL_SMART_METER'')"
  "py_getitem example_aircon ''type'' = Inr (JStr ''AC'')"
  by (simp_all add: example_meter_def example_aircon_def)

lemma example_events:
  "has_event example_device ''te''" "has_event example_device ''hu''"
  "\<not> has_event example_device ''il''"
  by (simp_all add: has_event_def example_device_lookup)

lemma example_setup:
  "async_setup_entry example_coordinator =
     Inr [NatureRemoE example_meter_entity, NatureRemoTemperatureSensor example_device_entity,
          NatureRemoHumiditySensor example_device_entity]"
proof -
  have n: "py_getitem example_device ''name'' = Inr (JStr ''Remo'')"
    by (simp add: example_device_def)
  have "energy_entities [example_meter, example_aircon] = Inr [NatureRemoE example_meter_entity]"
    by (simp add: example_types example_inits py_eq_str_def)
  moreover have "device_entities [NatureRemoE example_meter_entity] [example_device] =
     Inr [NatureRemoE example_meter_entity, NatureRemoTemperatureSensor example_device_entity,
          NatureRemoHumiditySensor example_device_entity]"
    by (simp add: n example_device_lookup example_inits dict_keys_def)
  ultimately show ?thesis
    by (simp add: async_setup_entry_def example_values)
qed

text \<open>
  C10. The setup of the sensor platform creates exactly these entities: one energy entity
  for each appliance of the snapshot whose \<open>type\<close> is \<open>EL_SMART_METER\<close>, and for
  each device one temperature, humidity or illuminance entity for each of the keys
  \<open>te\<close>, \<open>hu\<close>, \<open>il\<close> of its \<open>newest_events\<close>; no other entity, and as
  many entities as there are such appliances and such keys. The setup returns them
  whenever the appliances and devices have the fields it reads.
\<close>

theorem setup_creates_entities:
  "(list_all wf_appliance (dict_values (appliances (data c))) \<and>
    list_all wf_device (dict_values (devices (data c)))
      \<longrightarrow> (\<exists>created. async_setup_entry c = Inr created)) \<and>
   (async_setup_entry c = Inr ents \<longrightarrow>
      (\<forall>e. (e \<in> set ents) =
         ((\<exists>a self. a \<in> set (dict_values (appliances (data c))) \<and> is_smart_meter a \<and>
             NatureRemoBase_init a = Inr self \<and> e = NatureRemoE self) \<or>
          (\<exists>d k self. d \<in> set (dict_values (devices (data c))) \<and> is_kind k \<and>
             has_event d k \<and> NatureRemoDeviceBase_init d = Inr self \<and>
             e = sensor_of_kind k self))) \<and>
      length ents = length (filter is_smart_meter (dict_values (appliances (data c))))
                    + sum_list (map sensor_count (dict_values (devices (data c)))))"
proof (intro conjI impI)
  assume "list_all wf_appliance (dict_values (appliances (data c))) \<and>
    list_all wf_device (dict_values (devices (data c)))"
  then show "\<exists>created. async_setup_entry c = Inr created"
    using energy_entities_total [of "dict_values (appliances (data c))"]
      device_entities_total [of "dict_values (devices (data c))"]
    by (auto simp: async_setup_entry_def split: sum.splits)
next
  assume s: "async_setup_entry c = Inr ents"
  then obtain es where
    es: "energy_entities (dict_values (appliances (data c))) = Inr es"
    and ds: "device_entities es (dict_values (devices (data c))) = Inr ents"
    by (auto simp: async_setup_entry_def split: sum.splits)
  from device_entities_append [OF ds] obtain new where
    new: "ents = es @ new"
      "\<forall>e. (e \<in> set new) =
        (\<exists>d k self. d \<in> set (dict_values (devices (data c))) \<and> is_kind k \<and> has_event d k \<and>
           NatureRemoDeviceBase_init d = Inr self \<and> e = sensor_of_kind k self)"
      "length new = sum_list (map sensor_count (dict_values (devices (data c))))"
    by blast
  show "\<forall>e. (e \<in> set ents) =
         ((\<exists>a self. a \<in> set (dict_values (appliances (data c))) \<and> is_smart_meter a \<and>
             NatureRemoBase_init a = Inr self \<and> e = NatureRemoE self) \<or>
          (\<exists>d k self. d \<in> set (dict_values (devices (data c))) \<and> is_kind k \<and>
             has_event d k \<and> NatureRemoDeviceBase_init d = Inr self \<and>
             e = sensor_of_kind k self))"
    using energy_entities_set [OF es] new(2) unfolding new(1) by simp
  show "length ents = length (filter is_smart_meter (dict_values (appliances (data c))))
                    + sum_list (map sensor_count (dict_values (devices (data c))))"
    using energy_entities_length [OF es] new(3) unfolding new(1) by simp
qed

theorem setup_creates_entities_witness:
  "list_all wf_appliance (dict_values (appliances (data example_coordinator))) \<and>
   list_all wf_device (dict_values (devices (data example_coordinator))) \<and>
   async_setup_entry example_coordinator =
     Inr [NatureRemoE example_meter_entity, NatureRemoTemperatureSensor example_device_entity,
          NatureRemoHumiditySensor example_device_entity] \<and>
   length (filter is_smart_meter (dict_values (appliances (data example_coordinator))))
     + sum_list (map sensor_count (dict_values (devices (data example_coordinator)))) = 3 \<and>
   \<not> is_smart_meter example_aircon \<and> \<not> has_event example_device ''il''"
proof -
  have wa: "list_all wf_appliance (dict_values (appliances (data example_coordinator)))"
    by (simp add: example_values wf_appliance_def example_types example_inits)
  have wd: "list_all wf_device (dict_values (devices (data example_coordinator)))"
    by (simp add: example_values wf_device_def example_inits example_device_lookup)
  have sm: "is_smart_meter example_meter" "\<not> is_smart_meter example_aircon"
    by (simp_all add: is_smart_meter_def example_types)
  from setup_creates_entities [of example_coordinator
      "[NatureRemoE example_meter_entity, NatureRemoTemperatureSensor example_device_entity,
          NatureRemoHumiditySensor example_device_entity]"] example_setup wa wd sm example_events
  show ?thesis by (simp add: example_values sensor_count_def)
qed

section \<open>Configuration\<close>

lemma step_user_fetch_failure:
  "get appliances_rq devices_rq = Inl err \<Longrightarrow>
   map_of inp CONF_ACCESS_TOKEN = Some token \<Longrightarrow>
   async_step_user [] (Some inp) appliances_rq devices_rq
     = (ShowForm ''user'' [(''base'', ''invalid_auth'')], None)"
  by (simp add: async_step_user_def user_step_try_def validate_token_def)

text \<open>
  C7. A failure of the validation fetch that is no authentication failure is to be
  reported as the generic unknown error. The user step reports a transport error of the
  fetch as \<open>invalid_auth\<close>: \<open>_validate_token\<close> raises every exception of the fetch on
  as \<open>InvalidAuth\<close>, so the step's handler for other exceptions never sees one.
\<close>

theorem transport_error_reported_as_invalid_auth:
  "get (Inl ClientConnectionError) (ok_response (JArr [])) = Inl ClientConnectionError \<and>
   async_step_user []
     (Some [(CONF_ACCESS_TOKEN, JStr ''token''), (CONF_UPDATE_INTERVAL, JNum 60)])
     (Inl ClientConnectionError) (ok_response (JArr []))
   = (ShowForm ''user'' [(''base'', ''invalid_auth'')], None)"
  using step_user_fetch_failure [of "Inl ClientConnectionError" "ok_response (JArr [])"
      ClientConnectionError
      "[(CONF_ACCESS_TOKEN, JStr ''token''), (CONF_UPDATE_INTERVAL, JNum 60)]" "JStr ''token''"]
  by (simp add: get_example_transport_error)

lemma step_user_create_entry:
  "async_step_user entries (Some inp) a d = (CreateEntry title dat, removed) \<Longrightarrow>
   \<exists>token interval. map_of inp CONF_ACCESS_TOKEN = Some token \<and>
      map_of inp CONF_UPDATE_INTERVAL = Some interval \<and>
      dat = [(CONF_ACCESS_TOKEN, token), (CONF_UPDATE_INTERVAL, interval)]"
  by (auto simp: async_step_user_def user_step_try_def Let_def
      split: if_splits sum.splits option.splits error.splits)

lemma user_data_schema_ok:
  "user_data_schema inp = Inr validated \<Longrightarrow>
   \<exists>token interval n. validated = [(CONF_ACCESS_TOKEN, token), (CONF_UPDATE_INTERVAL, interval)]
     \<and> n \<in> set UPDATE_INTERVAL_OPTIONS \<and> num_of interval = Some n
     \<and> (\<forall>v. map_of inp CONF_UPDATE_INTERVAL = Some v \<longrightarrow> interval = v)"
  by (auto simp: user_data_schema_def vol_In_def vol_str_def list_ex_iff py_eq_num_def
      split: if_splits sum.splits option.splits json.splits)

lemma user_data_schema_rejects:
  "map_of inp CONF_UPDATE_INTERVAL = Some v \<Longrightarrow>
   \<not> list_ex (py_eq_num v) UPDATE_INTERVAL_OPTIONS \<Longrightarrow> user_data_schema inp = Inl Invalid"
  by (auto simp: user_data_schema_def vol_In_def vol_str_def
      split: if_splits sum.splits option.splits json.splits)

text \<open>
  C8. An interval outside the allow-list 10, 15, 30, 45, 60, 90, 120 fails the validation
  of the form: the schema refuses the input and the submission creates no entry, so no
  coordinator is set up with the value. An entry that a submission creates carries the
  submitted interval as it was, and the interval the setup gives the coordinator is one
  of the list.
\<close>

theorem interval_outside_allow_list_rejected:
  "(map_of inp CONF_UPDATE_INTERVAL = Some v \<and>
    \<not> list_ex (py_eq_num v) UPDATE_INTERVAL_OPTIONS
      \<longrightarrow> user_data_schema inp = Inl Invalid \<and>
          submit_user_form entries inp appliances_rq devices_rq = Inl Invalid) \<and>
   (submit_user_form entries2 inp2 appliances_rq2 devices_rq2
      = Inr (CreateEntry title dat, removed)
      \<longrightarrow> (\<exists>n. n \<in> set UPDATE_INTERVAL_OPTIONS \<and> setup_update_interval dat = Inr n) \<and>
          (\<forall>w. map_of inp2 CONF_UPDATE_INTERVAL = Some w
                 \<longrightarrow> map_of dat CONF_UPDATE_INTERVAL = Some w))"
proof (intro conjI impI)
  assume a: "map_of inp CONF_UPDATE_INTERVAL = Some v \<and>
    \<not> list_ex (py_eq_num v) UPDATE_INTERVAL_OPTIONS"
  then show r: "user_data_schema inp = Inl Invalid"
    using user_data_schema_rejects by blast
  then show "submit_user_form entries inp appliances_rq devices_rq = Inl Invalid"
    by (simp add: submit_user_form_def)
next
  assume s: "submit_user_form entries2 inp2 appliances_rq2 devices_rq2
               = Inr (CreateEntry title dat, removed)"
  then obtain validated where
    v: "user_data_schema inp2 = Inr validated"
    and st: "async_step_user entries2 (Some validated) appliances_rq2 devices_rq2
               = (CreateEntry title dat, removed)"
    by (auto simp: submit_user_form_def split: sum.splits)
  from user_data_schema_ok [OF v] obtain token interval n where
    val: "validated = [(CONF_ACCESS_TOKEN, token), (CONF_UPDATE_INTERVAL, interval)]"
    and n: "n \<in> set UPDATE_INTERVAL_OPTIONS" "num_of interval = Some n"
    and same: "\<forall>v. map_of inp2 CONF_UPDATE_INTERVAL = Some v \<longrightarrow> interval = v"
    by blast
  from step_user_create_entry [OF st] val
  have dat: "dat = [(CONF_ACCESS_TOKEN, token), (CONF_UPDATE_INTERVAL, interval)]"
    by (auto simp: CONF_ACCESS_TOKEN_def CONF_UPDATE_INTERVAL_def)
  have i: "map_of dat CONF_UPDATE_INTERVAL = Some interval"
    unfolding dat by (simp add: CONF_ACCESS_TOKEN_def CONF_UPDATE_INTERVAL_def)
  show "\<exists>n. n \<in> set UPDATE_INTERVAL_OPTIONS \<and> setup_update_interval dat = Inr n"
    using n i by (auto simp: setup_update_interval_def)
  show "\<forall>w. map_of inp2 CONF_UPDATE_INTERVAL = Some w
                 \<longrightarrow> map_of dat CONF_UPDATE_INTERVAL = Some w"
    using same i by auto
qed

theorem interval_outside_allow_list_rejected_witness:
  "map_of [(''access_token'', JStr ''token''), (''update_interval'', JNum 7)] CONF_UPDATE_INTERVAL
     = Some (JNum 7) \<and>
   \<not> list_ex (py_eq_num (JNum 7)) UPDATE_INTERVAL_OPTIONS \<and>
   submit_user_form [] [(''access_token'', JStr ''token''), (''update_interval'', JNum 7)]
     (ok_response (JArr [])) (ok_response (JArr [])) = Inl Invalid \<and>
   submit_user_form [] [(''access_token'', JStr ''token''), (''update_interval'', JNum 30)]
     (ok_response (JArr [])) (ok_response (JArr []))
     = Inr (CreateEntry ''Nature Remo''
              [(''access_token'', JStr ''token''), (''update_interval'', JNum 30)], None) \<and>
   setup_update_interval [(''access_token'', JStr ''token''), (''update_interval'', JNum 30)]
     = Inr 30"
proof -
  have m: "map_of [(''access_token'', JStr ''token''), (''update_interval'', JNum 7)]
             CONF_UPDATE_INTERVAL = Some (JNum 7)"
    by (simp add: CONF_UPDATE_INTERVAL_def)
  have o: "\<not> list_ex (py_eq_num (JNum 7)) UPDATE_INTERVAL_OPTIONS"
    by (simp add: UPDATE_INTERVAL_OPTIONS_def py_eq_num_def)
  have g: "get (ok_response (JArr [])) (ok_response (JArr []))
             = Inr \<lparr>appliances = [], devices = []\<rparr>"
    by (simp add: get_def fetch_by_id_ok)
  have v: "user_data_schema [(''access_token'', JStr ''token''), (''update_interval'', JNum 30)]
             = Inr [(''access_token'', JStr ''token''), (''update_interval'', JNum 30)]"
    by (simp add: user_data_schema_def dict_keys_def vol_str_def vol_In_def py_eq_num_def
        CONF_ACCESS_TOKEN_def CONF_UPDATE_INTERVAL_def UPDATE_INTERVAL_OPTIONS_def)
  have s: "submit_user_form [] [(''access_token'', JStr ''token''), (''update_interval'', JNum 30)]
     (ok_response (JArr [])) (ok_response (JArr []))
     = Inr (CreateEntry ''Nature Remo''
              [(''access_token'', JStr ''token''), (''update_interval'', JNum 30)], None)"
    by (simp add: submit_user_form_def v async_step_user_def user_step_try_def
        validate_token_def g CONF_ACCESS_TOKEN_def CONF_UPDATE_INTERVAL_def)
  have i: "setup_update_interval [(''access_token'', JStr ''token''), (''update_interval'', JNum 30)]
     = Inr 30"
    by (simp add: setup_update_interval_def CONF_UPDATE_INTERVAL_def)
  from interval_outside_allow_list_rejected
    [of "[(''access_token'', JStr ''token''), (''update_interval'', JNum 7)]" "JNum 7"
      "[]" "ok_response (JArr [])" "ok_response (JArr [])"
      "[]" "[(''access_token'', JStr ''token''), (''update_interval'', JNum 30)]"
      "ok_response (JArr [])" "ok_response (JArr [])" "''Nature Remo''"
      "[(''access_token'', JStr ''token''), (''update_interval'', JNum 30)]" None]
    m o s i
  show ?thesis by simp
qed

lemma migrate_version_1_fails:
  "version entry = 1 \<Longrightarrow> async_migrate_entry async_update_entry entry = (False, entry)"
  by (simp add: async_migrate_entry_def async_update_entry_def)

lemma migrate_other_version_unchanged:
  "version entry \<noteq> 1 \<Longrightarrow> async_migrate_entry upd entry = (False, entry)"
  by (simp add: async_migrate_entry_def)

text \<open>
  C9. For a stored configuration of version 1 without the key \<open>update_interval\<close>, the
  migration is to return true and leave an entry of version 2 whose data is the old data
  with \<open>update_interval\<close> set to 60. The migration passes \<open>state\<close> to the host's
  \<open>async_update_entry\<close>, which raises \<open>TypeError\<close>; the handler's own call passes
  \<open>state\<close> again and raises again; the migration returns false and the entry stays
  at version 1 without the key.
\<close>

theorem migrate_version_1_returns_false:
  "version example_entry = 1 \<and>
   map_of (entry_data example_entry) CONF_UPDATE_INTERVAL = None \<and>
   async_migrate_entry async_update_entry example_entry = (False, example_entry) \<and>
   version (snd (async_migrate_entry async_update_entry example_entry)) = 1 \<and>
   map_of (entry_data (snd (async_migrate_entry async_update_entry example_entry)))
     CONF_UPDATE_INTERVAL = None"
proof -
  have v: "version example_entry = 1"
    "map_of (entry_data example_entry) CONF_UPDATE_INTERVAL = None"
    by (simp_all add: example_entry_def CONF_UPDATE_INTERVAL_def)
  from migrate_version_1_fails [OF v(1)] v show ?thesis by simp
qed


end
